theory Spec2Isabelle
  imports Complex_Main
begin

section \<open>Syntax trees and JavaScript strings\<close>

text \<open>
  A unist/mdast node is a JavaScript object with a \<open>type\<close> tag, an optional string
  \<open>value\<close>, an optional \<open>children\<close> array and further attributes (\<open>url\<close>, \<open>lang\<close>,
  \<open>depth\<close>, \<open>ordered\<close>, ...) that the slicers copy and never read. A string is a list of
  code units; \<open>length\<close> is JavaScript's \<open>.length\<close>.
\<close>

datatype node = Node (ntype: string) (nvalue: "string option")
  (nchildren: "node list option") (nattrs: "(string \<times> string) list")

text \<open>What a slicing function hands back: \<open>null\<close>, one node, or an array of nodes.\<close>

datatype result = RNull | ROne node | RMany "node list"

text \<open>
  The mdast types give every \<open>text\<close>, \<open>inlineCode\<close> and \<open>code\<close> node a string value and
  every parent a children array; \<open>value_of\<close> and \<open>children_of\<close> read the field of such a
  node (and read a field that the types rule out as empty).
\<close>

definition value_of :: "node \<Rightarrow> string" where
  "value_of n = (case nvalue n of None \<Rightarrow> [] | Some s \<Rightarrow> s)"

definition children_of :: "node \<Rightarrow> node list" where
  "children_of n = (case nchildren n of None \<Rightarrow> [] | Some cs \<Rightarrow> cs)"

text \<open>\<open>{...node, value: v}\<close> and \<open>{...node, children: cs}\<close>: a copy with one field replaced.\<close>

definition with_value :: "node \<Rightarrow> string \<Rightarrow> node" where
  "with_value n v = Node (ntype n) (Some v) (nchildren n) (nattrs n)"

definition with_children :: "node \<Rightarrow> node list \<Rightarrow> node" where
  "with_children n cs = Node (ntype n) (nvalue n) (Some cs) (nattrs n)"

definition of_option :: "node option \<Rightarrow> result" where
  "of_option r = (case r of None \<Rightarrow> RNull | Some n \<Rightarrow> ROne n)"

text \<open>
  \<open>if (result) { if (Array.isArray(result)) children.push(...result) else children.push(result) }\<close>:
  \<open>null\<close> is falsy, an array (also an empty one) and an object are truthy.
\<close>

fun push :: "node list \<Rightarrow> result \<Rightarrow> node list" where
  "push children RNull = children"
| "push children (ROne n) = children @ [n]"
| "push children (RMany ns) = children @ ns"

text \<open>Constructors for the trees of the examples.\<close>

definition text_node :: "string \<Rightarrow> node" where
  "text_node v = Node ''text'' (Some v) None []"

definition inline_code :: "string \<Rightarrow> node" where
  "inline_code v = Node ''inlineCode'' (Some v) None []"

definition parent_node :: "string \<Rightarrow> node list \<Rightarrow> node" where
  "parent_node ty cs = Node ty None (Some cs) []"

text \<open>
  \<open>String.prototype.slice(a, b)\<close>: a negative index counts from the end, both indices are
  clamped to the string, and an empty string results when they cross.
\<close>

definition js_slice :: "string \<Rightarrow> int \<Rightarrow> int \<Rightarrow> string" where
  "js_slice s a b =
     (let n = int (length s);
          from = (if a < 0 then max (n + a) 0 else min a n);
          to = (if b < 0 then max (n + b) 0 else min b n)
      in take (nat (to - from)) (drop (nat from) s))"

text \<open>
  The white space and line terminators that \<open>trimStart\<close>, \<open>trimEnd\<close>, \<open>trim\<close> and the
  regular expression \<open>\s\<close> recognise, among the code units below 256: tab, line feed,
  vertical tab, form feed, carriage return, space and no-break space.
\<close>

definition is_ws :: "char \<Rightarrow> bool" where
  "is_ws c = (of_char c \<in> {9, 10, 11, 12, 13, 32, 160 :: nat})"

definition trimStart :: "string \<Rightarrow> string" where
  "trimStart s = dropWhile is_ws s"

definition trimEnd :: "string \<Rightarrow> string" where
  "trimEnd s = rev (dropWhile is_ws (rev s))"

definition trim :: "string \<Rightarrow> string" where
  "trim s = trimEnd (trimStart s)"

section \<open>The strict slicer: \<open>sliceMarkdown\<close>\<close>

subsection \<open>Options\<close>

record slice_options =
  behavior :: "string \<rightharpoonup> string"
  preserveBlocks :: "bool option"
  trimWhitespace :: "bool option"

definition DEFAULT_BEHAVIOR :: "string \<rightharpoonup> string" where
  "DEFAULT_BEHAVIOR = map_of
     [(''link'', ''content''), (''emphasis'', ''content''), (''strong'', ''content''),
      (''delete'', ''content''), (''inlineCode'', ''preserve''), (''code'', ''preserve''),
      (''image'', ''preserve''), (''imageReference'', ''preserve''),
      (''linkReference'', ''content'')]"

definition PARENT_TYPES :: "string list" where
  "PARENT_TYPES = [''root'', ''paragraph'', ''heading'', ''blockquote'', ''listItem'']"

definition FORMATTING_TYPES :: "string list" where
  "FORMATTING_TYPES = [''emphasis'', ''strong'', ''delete'', ''link'', ''linkReference'']"

definition ATOMIC_TYPES :: "string list" where
  "ATOMIC_TYPES = [''break'', ''thematicBreak'']"

definition IMAGE_TYPES :: "string list" where
  "IMAGE_TYPES = [''image'', ''imageReference'']"

text \<open>
  What the closures inside \<open>sliceMarkdown\<close> capture: the validated \<open>start\<close>, the clamped
  \<open>effectiveEnd\<close> and the resolved options.
\<close>

record md_env =
  md_start :: int
  effectiveEnd :: int
  resolvedBehavior :: "string \<rightharpoonup> string"
  resolvedPreserveBlocks :: bool
  resolvedTrimWhitespace :: bool

subsection \<open>Lengths\<close>

text \<open>
  \<open>getNodeLength\<close>. The \<open>NODE_LENGTH_CACHE\<close> maps a node object to the number this
  function computed for it; the slicers never write to a node they were given, so a cached
  number is the computed one and the cache is left out.
\<close>

fun getNodeLength :: "node \<Rightarrow> nat" where
  "getNodeLength (Node ty v ch ats) =
     (if ty = ''text'' \<or> ty = ''inlineCode'' then length (case v of None \<Rightarrow> [] | Some s \<Rightarrow> s)
      else if ty = ''code'' then length (case v of None \<Rightarrow> [] | Some s \<Rightarrow> s)
      else (case ch of
              Some children \<Rightarrow> foldl (\<lambda>len c. len + getNodeLength c) 0 children
            | None \<Rightarrow> 0))"

subsection \<open>Leaves\<close>

definition md_sliceText :: "md_env \<Rightarrow> node \<Rightarrow> int \<Rightarrow> int \<Rightarrow> node option" where
  "md_sliceText env node nodeStart nodeEnd =
     (if nodeEnd \<le> md_start env \<or> nodeStart \<ge> effectiveEnd env then None
      else
        let val = value_of node in
        if length val = 0 then
          (if nodeStart \<ge> md_start env \<and> nodeEnd \<le> effectiveEnd env then Some node else None)
        else
          let sliceStart = max 0 (md_start env - nodeStart);
              sliceEnd = min (int (length val)) (effectiveEnd env - nodeStart);
              slicedValue = js_slice val sliceStart sliceEnd;
              slicedValue =
                (if resolvedTrimWhitespace env \<and> slicedValue \<noteq> [] then
                   (let isAtStart = (nodeStart \<ge> md_start env);
                        isAtEnd = (nodeEnd \<le> effectiveEnd env)
                    in if \<not> isAtStart \<and> \<not> isAtEnd then slicedValue
                       else if \<not> isAtStart then trimStart slicedValue
                       else if \<not> isAtEnd then trimEnd slicedValue
                       else slicedValue)
                 else slicedValue)
          in if length slicedValue = 0 \<and> length val > 0 then None
             else Some (with_value node slicedValue))"

text \<open>\<open>sliceInlineCode\<close> and \<open>sliceCodeBlock\<close> differ in the behaviour key they read.\<close>

definition md_sliceCodeLike :: "md_env \<Rightarrow> string \<Rightarrow> node \<Rightarrow> int \<Rightarrow> int \<Rightarrow> node option" where
  "md_sliceCodeLike env key node nodeStart nodeEnd =
     (let behavior = resolvedBehavior env key in
      if nodeEnd \<le> md_start env \<or> nodeStart \<ge> effectiveEnd env then None
      else
        let isPartial = (nodeStart < md_start env \<or> nodeEnd > effectiveEnd env) in
        if \<not> isPartial \<or> behavior = Some ''preserve'' then Some node
        else if behavior = Some ''exclude'' then None
        else
          let val = value_of node in
          if length val = 0 then Some node
          else
            let sliceStart = max 0 (md_start env - nodeStart);
                sliceEnd = min (int (length val)) (effectiveEnd env - nodeStart);
                slicedValue = js_slice val sliceStart sliceEnd
            in Some (with_value node slicedValue))"

definition md_sliceInlineCode :: "md_env \<Rightarrow> node \<Rightarrow> int \<Rightarrow> int \<Rightarrow> node option" where
  "md_sliceInlineCode env node nodeStart nodeEnd =
     md_sliceCodeLike env ''inlineCode'' node nodeStart nodeEnd"

definition md_sliceCodeBlock :: "md_env \<Rightarrow> node \<Rightarrow> int \<Rightarrow> int \<Rightarrow> node option" where
  "md_sliceCodeBlock env node nodeStart nodeEnd =
     md_sliceCodeLike env ''code'' node nodeStart nodeEnd"

definition md_sliceImageNode :: "md_env \<Rightarrow> node \<Rightarrow> int \<Rightarrow> int \<Rightarrow> node option" where
  "md_sliceImageNode env node nodeStart nodeEnd =
     (if nodeEnd \<le> md_start env \<or> nodeStart \<ge> effectiveEnd env then None
      else
        let behavior = resolvedBehavior env (ntype node);
            isPartial = (nodeStart < md_start env \<or> nodeEnd > effectiveEnd env)
        in if \<not> isPartial \<or> behavior = Some ''preserve'' then Some node else None)"

definition md_sliceAtomicNode :: "md_env \<Rightarrow> node \<Rightarrow> int \<Rightarrow> int \<Rightarrow> node option" where
  "md_sliceAtomicNode env node nodeStart nodeEnd =
     (if nodeEnd > md_start env \<and> nodeStart < effectiveEnd env then Some node else None)"

subsection \<open>The traversal\<close>

text \<open>
  The closure variable \<open>position\<close> is the state: every function that reads or writes it
  takes the position and returns the new one beside its result. \<open>md_children\<close> is the
  \<open>for\<close> loop of \<open>sliceParent\<close> over the children, with \<open>slicedChildren\<close> as accumulator.
\<close>

function (sequential)
  md_slice :: "md_env \<Rightarrow> node \<Rightarrow> int \<Rightarrow> result \<times> int" and
  md_sliceByType :: "md_env \<Rightarrow> node \<Rightarrow> int \<Rightarrow> int \<Rightarrow> int \<Rightarrow> result \<times> int" and
  md_sliceFormattingNode :: "md_env \<Rightarrow> node \<Rightarrow> string \<Rightarrow> int \<Rightarrow> int \<Rightarrow> int \<Rightarrow> result \<times> int" and
  md_sliceList :: "md_env \<Rightarrow> node \<Rightarrow> int \<Rightarrow> int \<Rightarrow> node option \<times> int" and
  md_sliceParent :: "md_env \<Rightarrow> node \<Rightarrow> int \<Rightarrow> int \<Rightarrow> node option \<times> int" and
  md_children :: "md_env \<Rightarrow> node list \<Rightarrow> node list \<Rightarrow> int \<Rightarrow> node list \<times> int"
where
  "md_slice env node position =
     (let nodeStart = position;
          nodeLength = int (getNodeLength node);
          nodeEnd = nodeStart + nodeLength
      in if nodeEnd \<le> md_start env \<or> nodeStart \<ge> effectiveEnd env then (RNull, nodeEnd)
         else
           let (result, position') = md_sliceByType env node nodeStart nodeEnd position
           in (result, nodeEnd))"
| "md_sliceByType env node nodeStart nodeEnd position =
     (let type = ntype node in
      if type = ''text'' then (of_option (md_sliceText env node nodeStart nodeEnd), position)
      else if type \<in> set PARENT_TYPES then
        (let (r, position') = md_sliceParent env node nodeStart position
         in (of_option r, position'))
      else if type = ''list'' then
        (let (r, position') = md_sliceList env node nodeStart position
         in (of_option r, position'))
      else if type \<in> set FORMATTING_TYPES then
        md_sliceFormattingNode env node type nodeStart nodeEnd position
      else if type = ''inlineCode'' then
        (of_option (md_sliceInlineCode env node nodeStart nodeEnd), position)
      else if type = ''code'' then
        (of_option (md_sliceCodeBlock env node nodeStart nodeEnd), position)
      else if type \<in> set IMAGE_TYPES then
        (of_option (md_sliceImageNode env node nodeStart nodeEnd), position)
      else if type \<in> set ATOMIC_TYPES then
        (of_option (md_sliceAtomicNode env node nodeStart nodeEnd), position)
      else if nchildren node \<noteq> None then
        (let (r, position') = md_sliceParent env node nodeStart position
         in (of_option r, position'))
      else (RNull, position))"
| "md_sliceFormattingNode env node type nodeStart nodeEnd position =
     (let behavior = resolvedBehavior env type;
          overlapsStart = (nodeStart < effectiveEnd env \<and> nodeEnd > md_start env)
      in if \<not> overlapsStart then (RNull, position)
         else
           let isPartial = (nodeStart < md_start env \<or> nodeEnd > effectiveEnd env) in
           if \<not> isPartial \<or> behavior = Some ''preserve'' \<or> behavior = Some ''content'' then
             (let (r, position') = md_sliceParent env node nodeStart position
              in (of_option r, position'))
           else if behavior = Some ''exclude'' then (RNull, position)
           else if behavior = Some ''trim'' then
             (let (children, position') = md_sliceParent env node nodeStart position
              in (case children of
                    None \<Rightarrow> RNull
                  | Some c \<Rightarrow> (case nchildren c of None \<Rightarrow> RNull | Some cs \<Rightarrow> RMany cs),
                  position'))
           else
             (let (r, position') = md_sliceParent env node nodeStart position
              in (of_option r, position')))"
| "md_sliceList env node nodeStart position =
     (let (result, position') = md_sliceParent env node nodeStart position
      in (case result of
            None \<Rightarrow> None
          | Some r \<Rightarrow> if length (children_of r) \<noteq> 0 then Some r else None,
          position'))"
| "md_sliceParent env node nodeStart position =
     (let savedPosition = position;
          (slicedChildren, position') = md_children env (children_of node) [] nodeStart
      in (if length slicedChildren = 0 \<and> \<not> resolvedPreserveBlocks env then None
          else Some (with_children node slicedChildren),
          savedPosition))"
| "md_children env [] slicedChildren position = (slicedChildren, position)"
| "md_children env (child # rest) slicedChildren position =
     (let (result, position') = md_slice env child position
      in md_children env rest (push slicedChildren result) position')"
  by pat_completeness auto
termination
proof -
  have smaller: "6 * size_list size (children_of n) < Suc (6 * size n)" for n
    by (cases n) (auto simp: children_of_def split: option.splits)
  show ?thesis
    by (relation "measure (\<lambda>x. case x of
          Inl (Inl (env, node, position)) \<Rightarrow> 6 * size node + 5
        | Inl (Inr (Inl (env, node, rest))) \<Rightarrow> 6 * size node + 4
        | Inl (Inr (Inr (env, node, rest))) \<Rightarrow> 6 * size node + 3
        | Inr (Inl (env, node, rest)) \<Rightarrow> 6 * size node + 2
        | Inr (Inr (Inl (env, node, rest))) \<Rightarrow> 6 * size node + 1
        | Inr (Inr (Inr (env, children, rest))) \<Rightarrow> 6 * size_list size children)")
       (auto simp: smaller)
qed

subsection \<open>Validation and the entry point\<close>

text \<open>
  The positions arrive as JavaScript numbers: a finite number, \<open>NaN\<close> or an infinity.
  \<open>Number.isInteger\<close> holds of the finite numbers without a fractional part; every
  comparison with \<open>NaN\<close> is false.
\<close>

datatype jsnum = Fin rat | NaN | PosInf | NegInf

fun js_negative :: "jsnum \<Rightarrow> bool" where
  "js_negative (Fin r) = (r < 0)"
| "js_negative NegInf = True"
| "js_negative _ = False"

fun isInteger :: "jsnum \<Rightarrow> bool" where
  "isInteger (Fin r) = (of_int \<lfloor>r\<rfloor> = r)"
| "isInteger _ = False"

fun int_of :: "jsnum \<Rightarrow> int" where
  "int_of (Fin r) = \<lfloor>r\<rfloor>"
| "int_of _ = 0"

datatype error =
    StartNegative | StartNotInteger | EndNegative | EndNotInteger | EndNotGreater
  | TypeError

definition resolve_options :: "slice_options \<Rightarrow> int \<Rightarrow> int \<Rightarrow> md_env" where
  "resolve_options options start effEnd =
     \<lparr> md_start = start, effectiveEnd = effEnd,
       resolvedBehavior = DEFAULT_BEHAVIOR ++ behavior options,
       resolvedPreserveBlocks = (case preserveBlocks options of None \<Rightarrow> True | Some b \<Rightarrow> b),
       resolvedTrimWhitespace = (case trimWhitespace options of None \<Rightarrow> False | Some b \<Rightarrow> b) \<rparr>"

text \<open>
  \<open>sliceMarkdown(tree, start, end, options)\<close>; \<open>None\<close> is a \<open>null\<close> tree or an omitted
  \<open>end\<close>, and \<open>Inl\<close> is the \<open>Error\<close> thrown. Past the checks \<open>start\<close> and \<open>end\<close> are
  integers, and the traversal computes with them as such.
\<close>

fun validate_end :: "jsnum option \<Rightarrow> jsnum \<Rightarrow> error option" where
  "validate_end None start = None"
| "validate_end (Some e) start =
     (if js_negative e then Some EndNegative
      else if \<not> isInteger e then Some EndNotInteger
      else if int_of e \<le> int_of start then Some EndNotGreater
      else None)"

definition sliceMarkdown ::
  "node option \<Rightarrow> jsnum \<Rightarrow> jsnum option \<Rightarrow> slice_options \<Rightarrow> error + result" where
  "sliceMarkdown tree start end options =
     (case tree of
        None \<Rightarrow> Inr RNull
      | Some t \<Rightarrow>
          let treeLength = int (getNodeLength t) in
          if treeLength = 0 then Inr (if start = Fin 0 then ROne t else RNull)
          else if js_negative start then Inl StartNegative
          else if \<not> isInteger start then Inl StartNotInteger
          else
            let normalizedEnd = (case end of None \<Rightarrow> treeLength | Some e \<Rightarrow> int_of e) in
            case validate_end end start of
              Some err \<Rightarrow> Inl err
            | None \<Rightarrow>
                if int_of start \<ge> treeLength then Inr RNull
                else
                  let effEnd = min normalizedEnd treeLength in
                  if int_of start \<ge> effEnd then Inr RNull
                  else
                    let env = resolve_options options (int_of start) effEnd;
                        position = 0
                    in Inr (fst (md_slice env t position)))"

text \<open>
  \<open>getTreeLength\<close> hands its argument to \<open>getNodeLength\<close>, which reads \<open>node.type\<close>
  without a guard: on \<open>null\<close> that read throws a \<open>TypeError\<close>.
\<close>

definition getTreeLength :: "node option \<Rightarrow> error + nat" where
  "getTreeLength tree = (case tree of None \<Rightarrow> Inl TypeError | Some t \<Rightarrow> Inr (getNodeLength t))"

section \<open>The metadata-returning slicer: \<open>slice\<close>\<close>

subsection \<open>Configuration\<close>

text \<open>
  \<open>SliceConfig\<close>: three optional groups with optional members. \<open>partialNodes\<close> is read
  with the node's type as key (\<open>config.partialNodes[node.type]\<close>), so it is a map from
  key to behaviour string.
\<close>

record text_handling =
  boundaries :: "string option"
  mergeAdjacent :: "bool option"
  preserveLineBreaks :: "bool option"

record content_filter =
  includeHidden :: "bool option"
  includeReferences :: "bool option"
  includeFootnotes :: "bool option"

record slice_config =
  partialNodes :: "(string \<rightharpoonup> string) option"
  textHandling :: "text_handling option"
  content :: "content_filter option"

record resolved_config =
  rc_partialNodes :: "string \<rightharpoonup> string"
  rc_textHandling :: text_handling
  rc_content :: content_filter

definition DEFAULT_CONFIG :: resolved_config where
  "DEFAULT_CONFIG =
     \<lparr> rc_partialNodes = map_of
         [(''text'', ''truncate''), (''code'', ''truncate''), (''inlineCode'', ''truncate''),
          (''formatting'', ''preserve''), (''media'', ''preserve''), (''blocks'', ''include'')],
       rc_textHandling =
         \<lparr> boundaries = Some ''trim'', mergeAdjacent = Some True,
           preserveLineBreaks = Some True \<rparr>,
       rc_content =
         \<lparr> includeHidden = Some False, includeReferences = Some False,
           includeFootnotes = Some False \<rparr> \<rparr>"

text \<open>
  \<open>{ ...DEFAULT_CONFIG, ...config }\<close> is a shallow merge: a group that the caller gives
  replaces the default group whole.
\<close>

definition resolve_config :: "slice_config \<Rightarrow> resolved_config" where
  "resolve_config config =
     \<lparr> rc_partialNodes =
         (case partialNodes config of None \<Rightarrow> rc_partialNodes DEFAULT_CONFIG | Some p \<Rightarrow> p),
       rc_textHandling =
         (case textHandling config of None \<Rightarrow> rc_textHandling DEFAULT_CONFIG | Some t \<Rightarrow> t),
       rc_content =
         (case content config of None \<Rightarrow> rc_content DEFAULT_CONFIG | Some c \<Rightarrow> c) \<rparr>"

definition no_config :: slice_config where
  "no_config = \<lparr> partialNodes = None, textHandling = None, content = None \<rparr>"

text \<open>
  \<open>SliceContext\<close>: the range and the configuration are read only; \<open>context.info\<close> is
  written during the traversal and is passed through it as state. \<open>modifiedNodeTypes\<close> is a
  \<open>Set\<close>, kept in insertion order.
\<close>

record slice_context =
  ctx_start :: int
  ctx_end :: int
  ctx_config :: resolved_config

record context_info =
  hasPartialNodes :: bool
  modifiedNodeTypes :: "string list"

definition mark_partial :: "context_info \<Rightarrow> string \<Rightarrow> context_info" where
  "mark_partial info ty =
     \<lparr> hasPartialNodes = True,
       modifiedNodeTypes =
         (if ty \<in> set (modifiedNodeTypes info) then modifiedNodeTypes info
          else modifiedNodeTypes info @ [ty]) \<rparr>"

subsection \<open>Type guards and lengths\<close>

definition isParent :: "node \<Rightarrow> bool" where
  "isParent n = (nchildren n \<noteq> None)"

definition isText :: "node \<Rightarrow> bool" where
  "isText n = (ntype n = ''text'')"

definition isCode :: "node \<Rightarrow> bool" where
  "isCode n = (ntype n = ''code'')"

definition isInlineCode :: "node \<Rightarrow> bool" where
  "isInlineCode n = (ntype n = ''inlineCode'')"

definition isFormatting :: "node \<Rightarrow> bool" where
  "isFormatting n = (ntype n \<in> set [''emphasis'', ''strong'', ''delete'', ''underline''])"

definition isMedia :: "node \<Rightarrow> bool" where
  "isMedia n = (ntype n \<in> set [''link'', ''linkReference'', ''image'', ''imageReference''])"

definition isBlock :: "node \<Rightarrow> bool" where
  "isBlock n = (ntype n \<in> set [''paragraph'', ''heading'', ''blockquote'', ''listItem''])"

text \<open>\<open>if ((node as Text).value)\<close>: a string is truthy when it is not empty.\<close>

definition has_value :: "node \<Rightarrow> bool" where
  "has_value n = (case nvalue n of None \<Rightarrow> False | Some s \<Rightarrow> s \<noteq> [])"

fun calculateLength :: "node \<Rightarrow> nat" where
  "calculateLength (Node ty v ch ats) =
     (if (case v of None \<Rightarrow> False | Some s \<Rightarrow> s \<noteq> [])
      then length (case v of None \<Rightarrow> [] | Some s \<Rightarrow> s)
      else (case ch of
              Some children \<Rightarrow> foldl (\<lambda>sum child. sum + calculateLength child) 0 children
            | None \<Rightarrow> 0))"

text \<open>
  \<open>getLength\<close>; \<open>None\<close> is \<open>null\<close> or \<open>undefined\<close>. The \<open>lengthCache\<close> holds what
  \<open>calculateLength\<close> returned for a node object and is left out, as above.
\<close>

definition getLength :: "node option \<Rightarrow> nat" where
  "getLength node = (case node of None \<Rightarrow> 0 | Some n \<Rightarrow> calculateLength n)"

subsection \<open>Text clean-up\<close>

text \<open>\<open>value.replace(/\s+/g, ' ')\<close>: every maximal run of white space becomes one space.\<close>

function collapse_ws :: "string \<Rightarrow> string" where
  "collapse_ws [] = []"
| "collapse_ws (c # cs) =
     (if is_ws c then CHR '' '' # collapse_ws (dropWhile is_ws cs) else c # collapse_ws cs)"
  by pat_completeness auto
termination
  by (relation "measure length") (auto simp: length_dropWhile_le less_Suc_eq_le)

text \<open>\<open>mergeAdjacentText\<close>: the loop over \<open>nodes\<close> with the array \<open>result\<close>.\<close>

fun mergeAdjacentText_loop :: "node list \<Rightarrow> node list \<Rightarrow> node list" where
  "mergeAdjacentText_loop [] result = result"
| "mergeAdjacentText_loop (node # rest) result =
     (if result \<noteq> [] \<and> isText (last result) \<and> isText node then
        mergeAdjacentText_loop rest
          (butlast result @ [with_value (last result) (value_of (last result) @ value_of node)])
      else mergeAdjacentText_loop rest (result @ [node]))"

definition mergeAdjacentText :: "node list \<Rightarrow> node list" where
  "mergeAdjacentText nodes = mergeAdjacentText_loop nodes []"

subsection \<open>Leaves with a value\<close>

definition sliceNodeWithValue ::
  "slice_context \<Rightarrow> node \<Rightarrow> int \<Rightarrow> context_info \<Rightarrow> node option \<times> context_info" where
  "sliceNodeWithValue context node nodeStart info =
     (let start = ctx_start context; end = ctx_end context; config = ctx_config context;
          nodeEnd = nodeStart + int (length (value_of node))
      in if nodeEnd \<le> start \<or> nodeStart \<ge> end then (None, info)
         else if nodeStart \<ge> start \<and> nodeEnd \<le> end then (Some node, info)
         else
           let info' = mark_partial info (ntype node);
               behavior = (case rc_partialNodes config (ntype node) of
                             Some b \<Rightarrow> Some b
                           | None \<Rightarrow> rc_partialNodes config ''text'')
           in if behavior = Some ''include-full'' then (Some node, info')
              else if behavior = Some ''exclude-full'' then (None, info')
              else
                let sliceStart = max 0 (start - nodeStart);
                    sliceEnd = min (int (length (value_of node))) (end - nodeStart);
                    slicedValue = js_slice (value_of node) sliceStart sliceEnd;
                    isCodeLike = (isInlineCode node \<or> isCode node);
                    slicedValue =
                      (if \<not> isCodeLike then
                         (if boundaries (rc_textHandling config) = Some ''trim'' then
                            (let isAtStart = (nodeStart = start);
                                 isAtEnd = (nodeEnd = end)
                             in if \<not> isAtStart \<and> \<not> isAtEnd then trim slicedValue
                                else if \<not> isAtStart then trimStart slicedValue
                                else if \<not> isAtEnd then trimEnd slicedValue
                                else slicedValue)
                          else if boundaries (rc_textHandling config) = Some ''normalize'' then
                            collapse_ws slicedValue
                          else slicedValue)
                       else slicedValue)
                in (if length slicedValue > 0 then Some (with_value node slicedValue) else None,
                    info'))"

subsection \<open>Wrappers and containers\<close>

text \<open>
  \<open>sliceParent_children\<close> is the \<open>for\<close> loop of \<open>sliceParent\<close>, with \<open>childPosition\<close>
  and the array \<open>children\<close>.
\<close>

function (sequential)
  sliceNode :: "slice_context \<Rightarrow> node \<Rightarrow> int \<Rightarrow> context_info \<Rightarrow> result \<times> context_info" and
  sliceFormatting :: "slice_context \<Rightarrow> node \<Rightarrow> int \<Rightarrow> context_info \<Rightarrow> result \<times> context_info" and
  sliceMedia :: "slice_context \<Rightarrow> node \<Rightarrow> int \<Rightarrow> context_info \<Rightarrow> result \<times> context_info" and
  sliceBlock :: "slice_context \<Rightarrow> node \<Rightarrow> int \<Rightarrow> context_info \<Rightarrow> result \<times> context_info" and
  sliceParent ::
    "slice_context \<Rightarrow> node \<Rightarrow> int \<Rightarrow> context_info \<Rightarrow> node option \<times> context_info" and
  sliceParent_children ::
    "slice_context \<Rightarrow> node list \<Rightarrow> int \<Rightarrow> node list \<Rightarrow> context_info
       \<Rightarrow> node list \<times> context_info"
where
  "sliceNode context node nodeStart info =
     (if has_value node then
        (let (r, info') = sliceNodeWithValue context node nodeStart info in (of_option r, info'))
      else if isFormatting node then sliceFormatting context node nodeStart info
      else if isMedia node then sliceMedia context node nodeStart info
      else if isBlock node then sliceBlock context node nodeStart info
      else if isParent node then
        (let (r, info') = sliceParent context node nodeStart info in (of_option r, info'))
      else
        let nodeLength = int (getLength (Some node));
            nodeEnd = nodeStart + nodeLength;
            overlaps = (nodeEnd > ctx_start context \<and> nodeStart < ctx_end context)
        in (if overlaps then ROne node else RNull, info))"
| "sliceFormatting context node nodeStart info =
     (let start = ctx_start context; end = ctx_end context; config = ctx_config context;
          nodeLength = int (getLength (Some node));
          nodeEnd = nodeStart + nodeLength
      in if nodeEnd \<le> start \<or> nodeStart \<ge> end then (RNull, info)
         else if nodeStart \<ge> start \<and> nodeEnd \<le> end then
           (if isParent node then
              (let (r, info') = sliceParent context node nodeStart info in (of_option r, info'))
            else (ROne node, info))
         else
           let info1 = mark_partial info (ntype node);
               behavior = rc_partialNodes config ''formatting''
           in if behavior = Some ''strip'' then
                (if isParent node then
                   (let (slicedParent, info') = sliceParent context node nodeStart info1
                    in (case slicedParent of
                          None \<Rightarrow> RNull
                        | Some p \<Rightarrow> RMany (children_of p),
                        info'))
                 else (RNull, info1))
              else if behavior = Some ''extend'' then
                (if isParent node then
                   (let (r, info') = sliceParent context node nodeStart info1
                    in (of_option r, info'))
                 else (ROne node, info1))
              else
                (if isParent node then
                   (let (r, info') = sliceParent context node nodeStart info1
                    in (of_option r, info'))
                 else (ROne node, info1)))"
| "sliceMedia context node nodeStart info =
     (let start = ctx_start context; end = ctx_end context; config = ctx_config context;
          nodeLength = int (getLength (Some node));
          nodeEnd = nodeStart + nodeLength
      in if nodeEnd \<le> start \<or> nodeStart \<ge> end then (RNull, info)
         else if nodeStart \<ge> start \<and> nodeEnd \<le> end then
           (if isParent node then
              (let (r, info') = sliceParent context node nodeStart info in (of_option r, info'))
            else (ROne node, info))
         else
           let info1 = mark_partial info (ntype node);
               behavior = rc_partialNodes config ''media''
           in if behavior = Some ''strip'' then (RNull, info1)
              else if behavior = Some ''content-only'' then
                (if isParent node then
                   (let (slicedParent, info') = sliceParent context node nodeStart info1
                    in (case slicedParent of
                          None \<Rightarrow> RNull
                        | Some p \<Rightarrow> RMany (children_of p),
                        info'))
                 else (RNull, info1))
              else
                (if isParent node then
                   (let (r, info') = sliceParent context node nodeStart info1
                    in (of_option r, info'))
                 else (ROne node, info1)))"
| "sliceBlock context node nodeStart info =
     (let start = ctx_start context; end = ctx_end context; config = ctx_config context;
          nodeLength = int (getLength (Some node));
          nodeEnd = nodeStart + nodeLength
      in if nodeEnd \<le> start \<or> nodeStart \<ge> end then (RNull, info)
         else if nodeStart \<ge> start \<and> nodeEnd \<le> end then
           (if isParent node then
              (let (r, info') = sliceParent context node nodeStart info in (of_option r, info'))
            else (ROne node, info))
         else
           let info1 = mark_partial info (ntype node);
               behavior = rc_partialNodes config ''blocks''
           in if behavior = Some ''exclude'' then (RNull, info1)
              else if behavior = Some ''unwrap'' then
                (if isParent node then
                   (let (slicedParent, info') = sliceParent context node nodeStart info1
                    in (case slicedParent of
                          None \<Rightarrow> RNull
                        | Some p \<Rightarrow> RMany (children_of p),
                        info'))
                 else (RNull, info1))
              else
                (if isParent node then
                   (let (r, info') = sliceParent context node nodeStart info1
                    in (of_option r, info'))
                 else (ROne node, info1)))"
| "sliceParent context node nodeStart info =
     (let (children, info') = sliceParent_children context (children_of node) nodeStart [] info;
          finalChildren =
            (if mergeAdjacent (rc_textHandling (ctx_config context)) = Some True
             then mergeAdjacentText children else children)
      in if length finalChildren = 0 then (None, info')
         else (Some (with_children node finalChildren), info'))"
| "sliceParent_children context [] childPosition children info = (children, info)"
| "sliceParent_children context (child # rest) childPosition children info =
     (let (result, info') = sliceNode context child childPosition info;
          childLength = int (getLength (Some child))
      in sliceParent_children context rest (childPosition + childLength)
           (push children result) info')"
  by pat_completeness auto
termination
proof -
  have smaller: "6 * size_list size (children_of n) < Suc (6 * size n)" for n
    by (cases n) (auto simp: children_of_def split: option.splits)
  show ?thesis
    by (relation "measure (\<lambda>x. case x of
          Inl (Inl (context, node, rest)) \<Rightarrow> 6 * size node + 5
        | Inl (Inr (Inl (context, node, rest))) \<Rightarrow> 6 * size node + 4
        | Inl (Inr (Inr (context, node, rest))) \<Rightarrow> 6 * size node + 3
        | Inr (Inl (context, node, rest)) \<Rightarrow> 6 * size node + 2
        | Inr (Inr (Inl (context, node, rest))) \<Rightarrow> 6 * size node + 1
        | Inr (Inr (Inr (context, children, rest))) \<Rightarrow> 6 * size_list size children)")
       (auto simp: smaller)
qed

subsection \<open>The entry point\<close>

record result_info =
  originalLength :: nat
  slicedLength :: nat
  info_hasPartialNodes :: bool
  info_modifiedNodeTypes :: "string list"

record slice_result =
  sr_node :: "node option"
  sr_boundaries :: "int \<times> int"
  sr_info :: result_info

text \<open>
  \<open>slice(tree, start, end, config)\<close>; \<open>None\<close> is a \<open>null\<close> tree or an omitted \<open>end\<close>.
  The function has no \<open>throw\<close> and reads no field of a \<open>null\<close>: every path returns a
  result object.
\<close>

definition null_result :: slice_result where
  "null_result =
     \<lparr> sr_node = None, sr_boundaries = (0, 0),
       sr_info = \<lparr> originalLength = 0, slicedLength = 0, info_hasPartialNodes = False,
                   info_modifiedNodeTypes = [] \<rparr> \<rparr>"

definition slice :: "node option \<Rightarrow> int \<Rightarrow> int option \<Rightarrow> slice_config \<Rightarrow> slice_result" where
  "slice tree start end config =
     (case tree of
        None \<Rightarrow> null_result
      | Some t \<Rightarrow>
          if start < 0 then null_result
          else
            let resolvedConfig = resolve_config config;
                originalLength = getLength (Some t);
                actualEnd = (case end of
                               Some e \<Rightarrow> min e (int originalLength)
                             | None \<Rightarrow> int originalLength)
            in if start \<ge> actualEnd then
                 \<lparr> sr_node = None, sr_boundaries = (start, actualEnd),
                   sr_info = \<lparr> originalLength = originalLength, slicedLength = 0,
                               info_hasPartialNodes = False, info_modifiedNodeTypes = [] \<rparr> \<rparr>
               else
                 let context = \<lparr> ctx_start = start, ctx_end = actualEnd,
                                 ctx_config = resolvedConfig \<rparr>;
                     info0 = \<lparr> hasPartialNodes = False, modifiedNodeTypes = [] \<rparr>;
                     (result, info') = sliceNode context t 0 info0;
                     finalNode = (case result of ROne n \<Rightarrow> Some n | _ \<Rightarrow> None)
                 in \<lparr> sr_node = finalNode, sr_boundaries = (start, actualEnd),
                      sr_info = \<lparr> originalLength = originalLength,
                                  slicedLength = (case finalNode of
                                                    Some n \<Rightarrow> getLength (Some n)
                                                  | None \<Rightarrow> 0),
                                  info_hasPartialNodes = hasPartialNodes info',
                                  info_modifiedNodeTypes = modifiedNodeTypes info' \<rparr> \<rparr>)"

text \<open>\<open>length(tree)\<close>, the exported wrapper of \<open>getLength\<close>.\<close>

definition length_of_tree :: "node option \<Rightarrow> nat" where
  "length_of_tree tree = getLength tree"

section \<open>Text search\<close>

text \<open>
  \<open>s.indexOf(searchText, position)\<close>: the least index from \<open>position\<close> (clamped to the
  string) at which \<open>searchText\<close> starts; \<open>None\<close> is \<open>-1\<close>. An empty \<open>searchText\<close> is found
  at the clamped position itself.
\<close>

fun indexOf_at :: "string \<Rightarrow> string \<Rightarrow> nat \<Rightarrow> nat option" where
  "indexOf_at searchText [] k = (if searchText = [] then Some k else None)"
| "indexOf_at searchText (c # cs) k =
     (if take (length searchText) (c # cs) = searchText then Some k
      else indexOf_at searchText cs (Suc k))"

definition indexOf :: "string \<Rightarrow> string \<Rightarrow> nat \<Rightarrow> nat option" where
  "indexOf s searchText position =
     (let k = min position (length s) in indexOf_at searchText (drop k s) k)"

subsection \<open>\<open>findText\<close>\<close>





subsection \<open>\<open>findTextPositions\<close>\<close>

text \<open>The same loop, but \<open>index += searchLength\<close> after a hit.\<close>

partial_function (option)
  findTextPositions_while ::
    "string \<Rightarrow> string \<Rightarrow> nat \<Rightarrow> nat \<Rightarrow> nat list \<Rightarrow> nat list option" where
  "findTextPositions_while txt searchText currentPosition index positions =
     (case indexOf txt searchText index of
        None \<Rightarrow> Some positions
      | Some i \<Rightarrow>
          findTextPositions_while txt searchText currentPosition (i + length searchText)
            (positions @ [currentPosition + i]))"

declare findTextPositions_while.simps [code]

function (sequential)
  findTextPositions_traverse ::
    "string \<Rightarrow> node \<Rightarrow> nat list \<times> nat \<Rightarrow> (nat list \<times> nat) option" and
  findTextPositions_children ::
    "string \<Rightarrow> node list \<Rightarrow> nat list \<times> nat \<Rightarrow> (nat list \<times> nat) option"
where
  "findTextPositions_traverse searchText node (positions, currentPosition) =
     (if ntype node = ''text'' then
        (let txt = value_of node in
         if length txt = 0 then Some (positions, currentPosition)
         else
           (case findTextPositions_while txt searchText currentPosition 0 positions of
              None \<Rightarrow> None
            | Some positions' \<Rightarrow> Some (positions', currentPosition + length txt)))
      else if nchildren node \<noteq> None then
        findTextPositions_children searchText (children_of node) (positions, currentPosition)
      else Some (positions, currentPosition + getNodeLength node))"
| "findTextPositions_children searchText [] st = Some st"
| "findTextPositions_children searchText (child # rest) st =
     (case findTextPositions_traverse searchText child st of
        None \<Rightarrow> None
      | Some st' \<Rightarrow> findTextPositions_children searchText rest st')"
  by pat_completeness auto
termination
proof -
  have smaller: "2 * size_list size (children_of n) < Suc (2 * size n)" for n
    by (cases n) (auto simp: children_of_def split: option.splits)
  show ?thesis
    by (relation "measure (\<lambda>x. case x of
          Inl (searchText, node, st) \<Rightarrow> 2 * size node + 1
        | Inr (searchText, children, st) \<Rightarrow> 2 * size_list size children)")
       (auto simp: smaller)
qed

definition findTextPositions :: "node \<Rightarrow> string \<Rightarrow> nat list option" where
  "findTextPositions tree searchText =
     (if length searchText = 0 then Some []
      else map_option fst (findTextPositions_traverse searchText tree ([], 0)))"

section \<open>Auxiliary definitions for the statements\<close>

text \<open>
  The tree \<open>paragraph[text("Hello "), emphasis[text("world")], text(" test")]\<close> of the test
  suite, and the options \<open>{ behavior: { emphasis: b } }\<close>.
\<close>

definition hello_world_test :: node where
  "hello_world_test = parent_node ''paragraph''
     [text_node ''Hello '', parent_node ''emphasis'' [text_node ''world''], text_node '' test'']"

definition emphasis_option :: "string \<Rightarrow> slice_options" where
  "emphasis_option b =
     \<lparr> behavior = [''emphasis'' \<mapsto> b], preserveBlocks = None, trimWhitespace = None \<rparr>"

text \<open>The \<open>actualEnd\<close> that \<open>slice\<close> computes: \<open>end\<close> clamped to the tree's length.\<close>

definition effective_end :: "node \<Rightarrow> int option \<Rightarrow> int" where
  "effective_end t end =
     (case end of Some e \<Rightarrow> min e (int (getLength (Some t))) | None \<Rightarrow> int (getLength (Some t)))"

text \<open>
  What \<open>slice\<close> hands to \<open>sliceNode\<close> for the root, and what comes back before the
  \<open>Array.isArray(result) ? null : result\<close> of the entry point.
\<close>

definition root_context :: "node \<Rightarrow> int \<Rightarrow> int option \<Rightarrow> slice_config \<Rightarrow> slice_context" where
  "root_context t start end config =
     \<lparr> ctx_start = start, ctx_end = effective_end t end, ctx_config = resolve_config config \<rparr>"

definition info0 :: context_info where
  "info0 = \<lparr> hasPartialNodes = False, modifiedNodeTypes = [] \<rparr>"

definition root_resolution :: "node \<Rightarrow> int \<Rightarrow> int option \<Rightarrow> slice_config \<Rightarrow> result" where
  "root_resolution t start end config =
     fst (sliceNode (root_context t start end config) t 0 info0)"

text \<open>The configuration \<open>{ partialNodes: { key: b } }\<close>.\<close>

definition partial_config :: "string \<Rightarrow> string \<Rightarrow> slice_config" where
  "partial_config key b =
     \<lparr> partialNodes = Some [key \<mapsto> b], textHandling = None, content = None \<rparr>"

text \<open>A root that the requested range overlaps without covering it.\<close>

definition root_is_partial :: "node \<Rightarrow> int \<Rightarrow> int option \<Rightarrow> bool" where
  "root_is_partial t start end =
     (0 \<le> start \<and> start < effective_end t end
      \<and> (0 < start \<or> effective_end t end < int (getLength (Some t))))"

declare md_slice.simps [simp del] md_sliceByType.simps [simp del]
  md_sliceFormattingNode.simps [simp del] md_sliceList.simps [simp del]
  md_sliceParent.simps [simp del]

declare sliceNode.simps [simp del] sliceFormatting.simps [simp del] sliceMedia.simps [simp del]
  sliceBlock.simps [simp del] sliceParent.simps [simp del]


text \<open>The options object \<open>{}\<close>.\<close>

definition no_options :: slice_options where
  "no_options = \<lparr> behavior = Map.empty, preserveBlocks = None, trimWhitespace = None \<rparr>"

text \<open>
  For a node that \<open>slice\<close> of \<open>sliceMarkdown\<close> meets at \<open>position\<close>: whether the range
  overlaps it, and the array \<open>slicedChildren\<close> that \<open>sliceParent\<close> rebuilds for it.
\<close>

definition md_overlaps :: "md_env \<Rightarrow> node \<Rightarrow> int \<Rightarrow> bool" where
  "md_overlaps env node position =
     (\<not> (position + int (getNodeLength node) \<le> md_start env \<or> position \<ge> effectiveEnd env))"

definition md_rebuilt :: "md_env \<Rightarrow> node \<Rightarrow> int \<Rightarrow> node list" where
  "md_rebuilt env node nodeStart = fst (md_children env (children_of node) [] nodeStart)"

text \<open>The types that \<open>sliceByType\<close> sends to the fallback branch.\<close>

definition md_unknown_type :: "string \<Rightarrow> bool" where
  "md_unknown_type ty =
     (ty \<noteq> ''text'' \<and> ty \<notin> set PARENT_TYPES \<and> ty \<noteq> ''list'' \<and> ty \<notin> set FORMATTING_TYPES
      \<and> ty \<noteq> ''inlineCode'' \<and> ty \<noteq> ''code'' \<and> ty \<notin> set IMAGE_TYPES
      \<and> ty \<notin> set ATOMIC_TYPES)"

text \<open>A range and options for \<open>sliceMarkdown\<close>'s closures, for the examples.\<close>

definition md_example_env :: "int \<Rightarrow> int \<Rightarrow> bool \<Rightarrow> bool \<Rightarrow> md_env" where
  "md_example_env start end' keepBlocks trimWs =
     \<lparr> md_start = start, effectiveEnd = end', resolvedBehavior = DEFAULT_BEHAVIOR,
       resolvedPreserveBlocks = keepBlocks, resolvedTrimWhitespace = trimWs \<rparr>"

text \<open>The context of \<open>slice\<close> for a range, under the default configuration.\<close>

definition default_context :: "int \<Rightarrow> int \<Rightarrow> slice_context" where
  "default_context start end' =
     \<lparr> ctx_start = start, ctx_end = end', ctx_config = DEFAULT_CONFIG \<rparr>"


text \<open>
  The resolver's states for a span \<open>[ns, ne)\<close> against the range \<open>[start, end)\<close>: outside
  is tested first, fully inside after it.
\<close>

definition span_outside :: "int \<Rightarrow> int \<Rightarrow> int \<Rightarrow> int \<Rightarrow> bool" where
  "span_outside ns ne start end' = (ne \<le> start \<or> ns \<ge> end')"


text \<open>
  \<open>value.slice(max(0, start - ns), min(len, end - ns))\<close> for the leaf at \<open>ns\<close>, what is
  emitted for a value (nothing when it is empty), and a span that the range overlaps
  without covering it.
\<close>

definition cut_value :: "node \<Rightarrow> int \<Rightarrow> int \<Rightarrow> int \<Rightarrow> string" where
  "cut_value node ns start end' =
     js_slice (value_of node) (max 0 (start - ns))
       (min (int (length (value_of node))) (end' - ns))"

definition emit :: "node \<Rightarrow> string \<Rightarrow> node option" where
  "emit node s = (if s = [] then None else Some (with_value node s))"

definition partial_overlap :: "int \<Rightarrow> int \<Rightarrow> int \<Rightarrow> int \<Rightarrow> bool" where
  "partial_overlap ns ne start end' =
     (\<not> span_outside ns ne start end' \<and> (ns < start \<or> ne > end'))"

text \<open>The behaviour that \<open>sliceNodeWithValue\<close> looks up for a leaf.\<close>

definition leaf_behavior :: "slice_context \<Rightarrow> node \<Rightarrow> string option" where
  "leaf_behavior context node =
     (case rc_partialNodes (ctx_config context) (ntype node) of
        Some b \<Rightarrow> Some b
      | None \<Rightarrow> rc_partialNodes (ctx_config context) ''text'')"

definition truncates :: "slice_context \<Rightarrow> node \<Rightarrow> bool" where
  "truncates context node =
     (leaf_behavior context node \<noteq> Some ''include-full''
      \<and> leaf_behavior context node \<noteq> Some ''exclude-full'')"

definition trims :: "slice_context \<Rightarrow> bool" where
  "trims context = (boundaries (rc_textHandling (ctx_config context)) = Some ''trim'')"

definition code_like :: "node \<Rightarrow> bool" where
  "code_like node = (isInlineCode node \<or> isCode node)"

text \<open>The options \<open>{ trimWhitespace: true }\<close>.\<close>

definition trim_options :: slice_options where
  "trim_options = \<lparr> behavior = Map.empty, preserveBlocks = None, trimWhitespace = Some True \<rparr>"






section \<open>The partial-policy matrix\<close>

text \<open>
  C1. The tree \<open>paragraph[text("Hello "), emphasis[text("world")], text(" test")]\<close> has
  length 16, and \<open>sliceMarkdown\<close> over \<open>[4, 10)\<close> returns
  \<open>paragraph[text("o "), text("worl")]\<close> when the behaviour of \<open>emphasis\<close> is \<open>trim\<close>,
  \<open>paragraph[text("o ")]\<close> when it is \<open>exclude\<close>, and
  \<open>paragraph[text("o "), emphasis[text("worl")]]\<close> when it is \<open>content\<close> or \<open>preserve\<close>.
\<close>

theorem partial_policy_matrix:
  "getNodeLength hello_world_test = 16
   \<and> sliceMarkdown (Some hello_world_test) (Fin 4) (Some (Fin 10)) (emphasis_option ''trim'')
       = Inr (ROne (parent_node ''paragraph'' [text_node ''o '', text_node ''worl'']))
   \<and> sliceMarkdown (Some hello_world_test) (Fin 4) (Some (Fin 10)) (emphasis_option ''exclude'')
       = Inr (ROne (parent_node ''paragraph'' [text_node ''o '']))
   \<and> sliceMarkdown (Some hello_world_test) (Fin 4) (Some (Fin 10)) (emphasis_option ''content'')
       = Inr (ROne (parent_node ''paragraph''
            [text_node ''o '', parent_node ''emphasis'' [text_node ''worl'']]))
   \<and> sliceMarkdown (Some hello_world_test) (Fin 4) (Some (Fin 10)) (emphasis_option ''preserve'')
       = Inr (ROne (parent_node ''paragraph''
            [text_node ''o '', parent_node ''emphasis'' [text_node ''worl'']]))"
proof -
  have len: "getNodeLength hello_world_test = 16"
    by code_simp
  have trim: "sliceMarkdown (Some hello_world_test) (Fin 4) (Some (Fin 10))
      (emphasis_option ''trim'')
    = Inr (ROne (parent_node ''paragraph'' [text_node ''o '', text_node ''worl'']))"
    by code_simp
  have exclude: "sliceMarkdown (Some hello_world_test) (Fin 4) (Some (Fin 10))
      (emphasis_option ''exclude'')
    = Inr (ROne (parent_node ''paragraph'' [text_node ''o '']))"
    by code_simp
  have content: "sliceMarkdown (Some hello_world_test) (Fin 4) (Some (Fin 10))
      (emphasis_option ''content'')
    = Inr (ROne (parent_node ''paragraph''
         [text_node ''o '', parent_node ''emphasis'' [text_node ''worl'']]))"
    by code_simp
  have preserve: "sliceMarkdown (Some hello_world_test) (Fin 4) (Some (Fin 10))
      (emphasis_option ''preserve'')
    = Inr (ROne (parent_node ''paragraph''
         [text_node ''o '', parent_node ''emphasis'' [text_node ''worl'']]))"
    by code_simp
  from len trim exclude content preserve show ?thesis
    by (intro conjI)
qed

section \<open>Ranges that select nothing\<close>

text \<open>
  C4. \<open>slice\<close> is a total function into result objects: no path of it throws. For every
  configuration and range a \<open>null\<close> tree gives the null result (no node, boundaries
  \<open>(0, 0)\<close>, all counters zero); for every tree a negative \<open>start\<close> gives the same null
  result; and when \<open>start\<close> is at or past the clamped end, the result has no node, the
  boundaries \<open>(start, clamped end)\<close> and the tree's length as \<open>originalLength\<close>.
\<close>

theorem slice_never_fails:
  "slice None start end config =
     \<lparr> sr_node = None, sr_boundaries = (0, 0),
       sr_info = \<lparr> originalLength = 0, slicedLength = 0, info_hasPartialNodes = False,
                   info_modifiedNodeTypes = [] \<rparr> \<rparr>
   \<and> (start < 0 \<longrightarrow>
        slice tree start end config =
          \<lparr> sr_node = None, sr_boundaries = (0, 0),
            sr_info = \<lparr> originalLength = 0, slicedLength = 0, info_hasPartialNodes = False,
                        info_modifiedNodeTypes = [] \<rparr> \<rparr>)
   \<and> (0 \<le> start \<and> effective_end t end \<le> start \<longrightarrow>
        slice (Some t) start end config =
          \<lparr> sr_node = None, sr_boundaries = (start, effective_end t end),
            sr_info = \<lparr> originalLength = getLength (Some t), slicedLength = 0,
                        info_hasPartialNodes = False, info_modifiedNodeTypes = [] \<rparr> \<rparr>)"
  by (cases tree)
    (auto simp: slice_def null_result_def effective_end_def Let_def split: option.splits)

theorem slice_never_fails_witness:
  "(- 1 :: int) < 0
   \<and> sr_node (slice (Some (text_node ''hello'')) (- 1) (Some 3) no_config) = None
   \<and> (0 :: int) \<le> 5 \<and> effective_end (text_node ''hello'') (Some 5) \<le> 5
   \<and> sr_node (slice (Some (text_node ''hello'')) 5 (Some 5) no_config) = None
   \<and> sr_boundaries (slice (Some (text_node ''hello'')) 7 (Some 9) no_config) = (7, 5)"
proof -
  have e: "effective_end (text_node ''hello'') (Some 5) = 5"
    by (simp add: effective_end_def getLength_def text_node_def)
  have e': "effective_end (text_node ''hello'') (Some 9) = 5"
    by (simp add: effective_end_def getLength_def text_node_def)
  show ?thesis
    using
      slice_never_fails [where start = "- 1" and ?end = "Some 3" and config = no_config
        and tree = "Some (text_node ''hello'')" and t = "text_node ''hello''"]
      slice_never_fails [where start = 5 and ?end = "Some 5" and config = no_config
        and tree = "Some (text_node ''hello'')" and t = "text_node ''hello''"]
      slice_never_fails [where start = 7 and ?end = "Some 9" and config = no_config
        and tree = "Some (text_node ''hello'')" and t = "text_node ''hello''"]
    by (simp add: e e')
qed

section \<open>An array at the root\<close>

lemma slice_of_resolution:
  assumes "0 \<le> start" "start < effective_end t end"
  shows "sr_node (slice (Some t) start end config) =
           (case root_resolution t start end config of ROne n \<Rightarrow> Some n | _ \<Rightarrow> None)"
    and "slicedLength (sr_info (slice (Some t) start end config)) =
           (case root_resolution t start end config of
              ROne n \<Rightarrow> getLength (Some n) | _ \<Rightarrow> 0)"
  using assms
  by (auto simp: slice_def root_resolution_def root_context_def info0_def effective_end_def
      Let_def split: prod.splits result.splits option.splits)

lemma formatting_root:
  assumes "root_is_partial t start end" "\<not> has_value t" "isFormatting t"
    "rc_partialNodes (resolve_config config) ''formatting'' = Some ''strip''"
  shows "\<exists>ns. root_resolution t start end config = RMany ns
           \<or> root_resolution t start end config = RNull"
  using assms
  by (auto simp: root_resolution_def root_context_def root_is_partial_def sliceNode.simps
      sliceFormatting.simps Let_def split: prod.splits option.splits)

lemma media_root:
  assumes "root_is_partial t start end" "\<not> has_value t" "isMedia t"
    "rc_partialNodes (resolve_config config) ''media'' = Some ''content-only''"
  shows "\<exists>ns. root_resolution t start end config = RMany ns
           \<or> root_resolution t start end config = RNull"
  using assms
  by (auto simp: root_resolution_def root_context_def root_is_partial_def sliceNode.simps
      sliceMedia.simps Let_def isMedia_def isFormatting_def split: prod.splits option.splits)

lemma block_root:
  assumes "root_is_partial t start end" "\<not> has_value t" "isBlock t"
    "rc_partialNodes (resolve_config config) ''blocks'' = Some ''unwrap''"
  shows "\<exists>ns. root_resolution t start end config = RMany ns
           \<or> root_resolution t start end config = RNull"
  using assms
  by (auto simp: root_resolution_def root_context_def root_is_partial_def sliceNode.simps
      sliceBlock.simps Let_def isMedia_def isFormatting_def isBlock_def
      split: prod.splits option.splits)

text \<open>
  C10. Whenever \<open>sliceNode\<close> resolves the root itself to an array, \<open>slice\<close> returns no node
  and \<open>slicedLength\<close> 0. That is the outcome for every partially covered root that is a
  formatting node under \<open>formatting: 'strip'\<close>, a media node under \<open>media: 'content-only'\<close>
  or a block under \<open>blocks: 'unwrap'\<close>. For \<open>emphasis[text("hello world")]\<close> over \<open>[2, 8)\<close>
  with \<open>strip\<close> the array is \<open>[text("llo wo")]\<close> and is discarded, while the same emphasis
  one level down, inside a \<open>root\<close>, has the array spliced into the root.
\<close>

theorem root_array_discarded:
  "(0 \<le> start \<and> start < effective_end t end \<and> root_resolution t start end config = RMany ns
      \<longrightarrow> sr_node (slice (Some t) start end config) = None
          \<and> slicedLength (sr_info (slice (Some t) start end config)) = 0)
   \<and> (root_is_partial t start end \<and> \<not> has_value t
       \<and> (isFormatting t
             \<and> rc_partialNodes (resolve_config config) ''formatting'' = Some ''strip''
           \<or> isMedia t
             \<and> rc_partialNodes (resolve_config config) ''media'' = Some ''content-only''
           \<or> isBlock t
             \<and> rc_partialNodes (resolve_config config) ''blocks'' = Some ''unwrap'')
      \<longrightarrow> sr_node (slice (Some t) start end config) = None
          \<and> slicedLength (sr_info (slice (Some t) start end config)) = 0)
   \<and> root_resolution (parent_node ''emphasis'' [text_node ''hello world'']) 2 (Some 8)
         (partial_config ''formatting'' ''strip'') = RMany [text_node ''llo wo'']
   \<and> sr_node (slice (Some (parent_node ''emphasis'' [text_node ''hello world''])) 2 (Some 8)
         (partial_config ''formatting'' ''strip'')) = None
   \<and> sr_node (slice (Some (parent_node ''root''
           [parent_node ''emphasis'' [text_node ''hello world'']])) 2 (Some 8)
         (partial_config ''formatting'' ''strip''))
       = Some (parent_node ''root'' [text_node ''llo wo''])"
proof -
  have array: "sr_node (slice (Some t) start end config) = None
      \<and> slicedLength (sr_info (slice (Some t) start end config)) = 0"
    if "0 \<le> start" "start < effective_end t end"
      "root_resolution t start end config = RMany ns \<or> root_resolution t start end config = RNull"
    for ns
    using that slice_of_resolution [of start t "end" config] by auto
  have policy: "sr_node (slice (Some t) start end config) = None
      \<and> slicedLength (sr_info (slice (Some t) start end config)) = 0"
    if p: "root_is_partial t start end" and v: "\<not> has_value t"
      and c: "isFormatting t
             \<and> rc_partialNodes (resolve_config config) ''formatting'' = Some ''strip''
           \<or> isMedia t
             \<and> rc_partialNodes (resolve_config config) ''media'' = Some ''content-only''
           \<or> isBlock t
             \<and> rc_partialNodes (resolve_config config) ''blocks'' = Some ''unwrap''"
  proof -
    from c obtain ms where "root_resolution t start end config = RMany ms
        \<or> root_resolution t start end config = RNull"
      using formatting_root [OF p v] media_root [OF p v] block_root [OF p v] by blast
    moreover from p have "0 \<le> start" "start < effective_end t end"
      by (simp_all add: root_is_partial_def)
    ultimately show ?thesis
      using array by blast
  qed
  have ex1: "root_resolution (parent_node ''emphasis'' [text_node ''hello world'']) 2 (Some 8)
         (partial_config ''formatting'' ''strip'') = RMany [text_node ''llo wo'']"
    by code_simp
  have ex2: "sr_node (slice (Some (parent_node ''emphasis'' [text_node ''hello world''])) 2
         (Some 8) (partial_config ''formatting'' ''strip'')) = None"
    by code_simp
  have ex3: "sr_node (slice (Some (parent_node ''root''
           [parent_node ''emphasis'' [text_node ''hello world'']])) 2 (Some 8)
         (partial_config ''formatting'' ''strip''))
       = Some (parent_node ''root'' [text_node ''llo wo''])"
    by code_simp
  from array policy ex1 ex2 ex3 show ?thesis
    by blast
qed

theorem root_array_discarded_witness:
  "root_is_partial (parent_node ''emphasis'' [text_node ''hello world'']) 2 (Some 8)
   \<and> \<not> has_value (parent_node ''emphasis'' [text_node ''hello world''])
   \<and> isFormatting (parent_node ''emphasis'' [text_node ''hello world''])
   \<and> rc_partialNodes (resolve_config (partial_config ''formatting'' ''strip'')) ''formatting''
       = Some ''strip''
   \<and> root_resolution (parent_node ''emphasis'' [text_node ''hello world'']) 2 (Some 8)
       (partial_config ''formatting'' ''strip'') = RMany [text_node ''llo wo'']
   \<and> sr_node (slice (Some (parent_node ''emphasis'' [text_node ''hello world''])) 2 (Some 8)
       (partial_config ''formatting'' ''strip'')) = None
   \<and> slicedLength (sr_info (slice (Some (parent_node ''emphasis'' [text_node ''hello world'']))
       2 (Some 8) (partial_config ''formatting'' ''strip''))) = 0"
proof -
  have h1: "root_is_partial (parent_node ''emphasis'' [text_node ''hello world'']) 2 (Some 8)"
    by code_simp
  have h2: "\<not> has_value (parent_node ''emphasis'' [text_node ''hello world''])"
    by code_simp
  have h3: "isFormatting (parent_node ''emphasis'' [text_node ''hello world''])"
    by code_simp
  have h4: "rc_partialNodes (resolve_config (partial_config ''formatting'' ''strip''))
      ''formatting'' = Some ''strip''"
    by code_simp
  have h5: "root_resolution (parent_node ''emphasis'' [text_node ''hello world'']) 2 (Some 8)
       (partial_config ''formatting'' ''strip'') = RMany [text_node ''llo wo'']"
    by code_simp
  show ?thesis
    using h1 h2 h3 h4 h5
      root_array_discarded [where t = "parent_node ''emphasis'' [text_node ''hello world'']"
        and start = 2 and ?end = "Some 8" and config = "partial_config ''formatting'' ''strip''"
        and ns = "[text_node ''llo wo'']"]
    by blast
qed

section \<open>Validation in \<open>sliceMarkdown\<close>\<close>




section \<open>Lengths\<close>

lemma foldl_plus_sum_list:
  "foldl (\<lambda>len c. len + f c) a cs = a + sum_list (map f cs)" for a :: nat
  by (induction cs arbitrary: a) simp_all

text \<open>
  C8, as the code has it. In both length functions a container's length is the sum of its
  children's lengths, in order. \<open>getNodeLength\<close> gives 0 to every childless node whose type
  is not \<open>text\<close>, \<open>inlineCode\<close> or \<open>code\<close>. \<open>length\<close> (\<open>getLength\<close>) gives 0 to every
  childless node without a non-empty value, counts the value of every node that has a
  non-empty one, whatever its type, and returns 0 for \<open>null\<close>.
\<close>

theorem length_of_nodes:
  "(ty \<noteq> ''text'' \<and> ty \<noteq> ''inlineCode'' \<and> ty \<noteq> ''code'' \<longrightarrow>
      getNodeLength (Node ty v (Some cs) ats) = sum_list (map getNodeLength cs)
      \<and> getNodeLength (Node ty v None ats) = 0)
   \<and> (\<not> has_value (Node ty v (Some cs) ats) \<longrightarrow>
        length_of_tree (Some (Node ty v (Some cs) ats))
          = sum_list (map (\<lambda>c. length_of_tree (Some c)) cs))
   \<and> (\<not> has_value (Node ty v None ats) \<longrightarrow> length_of_tree (Some (Node ty v None ats)) = 0)
   \<and> (has_value n \<longrightarrow> length_of_tree (Some n) = length (value_of n))
   \<and> length_of_tree None = 0"
  by (cases n)
    (auto simp: foldl_plus_sum_list length_of_tree_def getLength_def has_value_def
      value_of_def split: option.splits)

theorem length_of_nodes_witness:
  "''paragraph'' \<noteq> ''text'' \<and> ''paragraph'' \<noteq> ''inlineCode'' \<and> ''paragraph'' \<noteq> ''code''
   \<and> getNodeLength (parent_node ''paragraph'' [text_node ''Hello '', inline_code ''world''])
       = getNodeLength (text_node ''Hello '') + getNodeLength (inline_code ''world'')
   \<and> getNodeLength (Node ''paragraph'' None None []) = 0
   \<and> \<not> has_value (parent_node ''paragraph'' [text_node ''Hello '', inline_code ''world''])
   \<and> length_of_tree (Some (parent_node ''paragraph''
         [text_node ''Hello '', inline_code ''world'']))
       = length_of_tree (Some (text_node ''Hello ''))
         + length_of_tree (Some (inline_code ''world''))
   \<and> \<not> has_value (Node ''break'' None None [])
   \<and> length_of_tree (Some (Node ''break'' None None [])) = 0
   \<and> has_value (text_node ''Hello '')
   \<and> length_of_tree (Some (text_node ''Hello '')) = 6"
proof -
  have h: "\<not> has_value (Node ''paragraph'' None
      (Some [text_node ''Hello '', inline_code ''world'']) [])"
    "\<not> has_value (Node ''break'' None None [])"
    "has_value (text_node ''Hello '')"
    "value_of (text_node ''Hello '') = ''Hello ''"
    by (simp_all add: has_value_def text_node_def value_of_def)
  show ?thesis
    using h
      length_of_nodes [where ty = "''paragraph''" and v = None
        and cs = "[text_node ''Hello '', inline_code ''world'']" and ats = "[]"
        and n = "text_node ''Hello ''"]
      length_of_nodes [where ty = "''break''" and v = None
        and cs = "[]" and ats = "[]" and n = "text_node ''Hello ''"]
    by (simp add: parent_node_def)
qed

text \<open>
  C8 as stated fails twice. An \<open>html\<close> node is not character-bearing, yet \<open>length\<close> counts
  its value; and \<open>getTreeLength(null)\<close> throws a \<open>TypeError\<close> where \<open>length(null)\<close> is 0.
\<close>

theorem length_counterexample:
  "length_of_tree (Some (Node ''html'' (Some ''<b>'') None [])) = 3
   \<and> getNodeLength (Node ''html'' (Some ''<b>'') None []) = 0
   \<and> getTreeLength None = Inl TypeError"
  by (simp add: length_of_tree_def getLength_def getTreeLength_def)

section \<open>Containers left without children\<close>

lemma children_of_with_children [simp]: "children_of (with_children n cs) = cs"
  by (simp add: children_of_def with_children_def)

lemma sliceParent_never_empty:
  "sliceParent context node nodeStart info = (Some n, info') \<Longrightarrow> children_of n \<noteq> []"
  by (auto simp: sliceParent.simps Let_def split: prod.splits if_splits)

lemma sliceFormatting_never_empty:
  "isParent node \<Longrightarrow> fst (sliceFormatting context node nodeStart info) = ROne n
     \<Longrightarrow> children_of n \<noteq> []"
  by (auto simp: sliceFormatting.simps Let_def of_option_def
      split: prod.splits if_splits option.splits dest: sliceParent_never_empty)

lemma sliceMedia_never_empty:
  "isParent node \<Longrightarrow> fst (sliceMedia context node nodeStart info) = ROne n
     \<Longrightarrow> children_of n \<noteq> []"
  by (auto simp: sliceMedia.simps Let_def of_option_def
      split: prod.splits if_splits option.splits dest: sliceParent_never_empty)

lemma sliceBlock_never_empty:
  "isParent node \<Longrightarrow> fst (sliceBlock context node nodeStart info) = ROne n
     \<Longrightarrow> children_of n \<noteq> []"
  by (auto simp: sliceBlock.simps Let_def of_option_def
      split: prod.splits if_splits option.splits dest: sliceParent_never_empty)

lemma sliceNode_never_empty:
  assumes "isParent node" "\<not> has_value node"
    "fst (sliceNode context node nodeStart info) = ROne n"
  shows "children_of n \<noteq> []"
proof -
  consider "isFormatting node" | "\<not> isFormatting node" "isMedia node"
    | "\<not> isFormatting node" "\<not> isMedia node" "isBlock node"
    | "\<not> isFormatting node" "\<not> isMedia node" "\<not> isBlock node"
    by blast
  then show ?thesis
  proof cases
    case 1
    with assms show ?thesis
      using sliceFormatting_never_empty [of node "context" nodeStart info n]
      by (simp add: sliceNode.simps)
  next
    case 2
    with assms show ?thesis
      using sliceMedia_never_empty [of node "context" nodeStart info n]
      by (simp add: sliceNode.simps)
  next
    case 3
    with assms show ?thesis
      using sliceBlock_never_empty [of node "context" nodeStart info n]
      by (simp add: sliceNode.simps)
  next
    case 4
    with assms show ?thesis
      by (auto simp: sliceNode.simps of_option_def split: prod.splits option.splits
          dest: sliceParent_never_empty)
  qed
qed

lemma md_list_result:
  assumes "md_overlaps env node position" "ntype node = ''list''"
  shows "fst (md_slice env node position) =
           (if md_rebuilt env node position = [] then RNull
            else ROne (with_children node (md_rebuilt env node position)))"
  using assms
  by (auto simp: md_slice.simps md_sliceByType.simps md_sliceList.simps md_sliceParent.simps
      md_overlaps_def md_rebuilt_def PARENT_TYPES_def Let_def of_option_def
      split: prod.splits)

lemma md_parent_result:
  assumes "md_overlaps env node position"
    "ntype node \<in> set PARENT_TYPES \<or> md_unknown_type (ntype node) \<and> nchildren node \<noteq> None"
  shows "fst (md_slice env node position) =
           (if md_rebuilt env node position = [] \<and> \<not> resolvedPreserveBlocks env then RNull
            else ROne (with_children node (md_rebuilt env node position)))"
  using assms
  by (auto simp: md_slice.simps md_sliceByType.simps md_sliceParent.simps
      md_overlaps_def md_rebuilt_def md_unknown_type_def PARENT_TYPES_def Let_def of_option_def
      split: prod.splits)

text \<open>
  C3, as the code has it. In \<open>sliceMarkdown\<close>, for a node that the range overlaps: a \<open>list\<close>
  whose rebuilt children array is empty gives \<open>null\<close>, whatever \<open>preserveBlocks\<close> says, and
  otherwise the list with the rebuilt children; a \<open>root\<close>, \<open>paragraph\<close>, \<open>heading\<close>,
  \<open>blockquote\<close>, \<open>listItem\<close> or a parent of unknown type is returned with its rebuilt
  children, also when there are none, unless \<open>preserveBlocks\<close> is false and there are none.
  In \<open>slice\<close> there is no such toggle: no container comes back with an empty child list.
\<close>

theorem empty_containers:
  "(md_overlaps env node position \<and> ntype node = ''list'' \<longrightarrow>
      fst (md_slice env node position) =
        (if md_rebuilt env node position = [] then RNull
         else ROne (with_children node (md_rebuilt env node position))))
   \<and> (md_overlaps env node position
       \<and> (ntype node \<in> set PARENT_TYPES
           \<or> md_unknown_type (ntype node) \<and> nchildren node \<noteq> None) \<longrightarrow>
      fst (md_slice env node position) =
        (if md_rebuilt env node position = [] \<and> \<not> resolvedPreserveBlocks env then RNull
         else ROne (with_children node (md_rebuilt env node position))))
   \<and> (isParent container \<and> \<not> has_value container \<and> fst (sliceNode ctx container nodeStart info) = ROne n
        \<longrightarrow> children_of n \<noteq> [])"
  using md_list_result [of env node position] md_parent_result [of env node position]
    sliceNode_never_empty [of container ctx nodeStart info n]
  by blast

theorem empty_containers_witness:
  "md_overlaps (md_example_env 0 2 True False) (parent_node ''list'' []) 1
   \<and> ntype (parent_node ''list'' []) = ''list''
   \<and> md_rebuilt (md_example_env 0 2 True False) (parent_node ''list'' []) 1 = []
   \<and> fst (md_slice (md_example_env 0 2 True False) (parent_node ''list'' []) 1) = RNull
   \<and> md_overlaps (md_example_env 0 2 True False) (parent_node ''paragraph'' []) 1
   \<and> ntype (parent_node ''paragraph'' []) \<in> set PARENT_TYPES
   \<and> fst (md_slice (md_example_env 0 2 True False) (parent_node ''paragraph'' []) 1)
       = ROne (parent_node ''paragraph'' [])
   \<and> md_overlaps (md_example_env 0 2 False False) (parent_node ''paragraph'' []) 1
   \<and> fst (md_slice (md_example_env 0 2 False False) (parent_node ''paragraph'' []) 1) = RNull
   \<and> isParent (parent_node ''root'' [text_node ''a'', parent_node ''paragraph'' [],
         text_node ''b''])
   \<and> \<not> has_value (parent_node ''root'' [text_node ''a'', parent_node ''paragraph'' [],
         text_node ''b''])
   \<and> fst (sliceNode (default_context 0 2)
         (parent_node ''root'' [text_node ''a'', parent_node ''paragraph'' [], text_node ''b''])
         0 info0) = ROne (parent_node ''root'' [text_node ''ab''])
   \<and> children_of (parent_node ''root'' [text_node ''ab'']) \<noteq> []"
proof -
  have l: "md_overlaps (md_example_env 0 2 True False) (parent_node ''list'' []) 1"
    "ntype (parent_node ''list'' []) = ''list''"
    "md_rebuilt (md_example_env 0 2 True False) (parent_node ''list'' []) 1 = []"
    by code_simp+
  have p: "md_overlaps (md_example_env 0 2 True False) (parent_node ''paragraph'' []) 1"
    "ntype (parent_node ''paragraph'' []) \<in> set PARENT_TYPES"
    "md_rebuilt (md_example_env 0 2 True False) (parent_node ''paragraph'' []) 1 = []"
    "resolvedPreserveBlocks (md_example_env 0 2 True False)"
    "with_children (parent_node ''paragraph'' []) [] = parent_node ''paragraph'' []"
    by code_simp+
  have q: "md_overlaps (md_example_env 0 2 False False) (parent_node ''paragraph'' []) 1"
    "md_rebuilt (md_example_env 0 2 False False) (parent_node ''paragraph'' []) 1 = []"
    "\<not> resolvedPreserveBlocks (md_example_env 0 2 False False)"
    by code_simp+
  have r: "isParent (parent_node ''root'' [text_node ''a'', parent_node ''paragraph'' [],
         text_node ''b''])"
    "\<not> has_value (parent_node ''root'' [text_node ''a'', parent_node ''paragraph'' [],
         text_node ''b''])"
    "fst (sliceNode (default_context 0 2)
         (parent_node ''root'' [text_node ''a'', parent_node ''paragraph'' [], text_node ''b''])
         0 info0) = ROne (parent_node ''root'' [text_node ''ab''])"
    by code_simp+
  show ?thesis
    using l p q r
      empty_containers [where env = "md_example_env 0 2 True False"
        and node = "parent_node ''list'' []" and position = 1
        and ctx = "default_context 0 2" and nodeStart = 0 and info = info0
        and container = "parent_node ''root'' [text_node ''a'', parent_node ''paragraph'' [],
          text_node ''b'']"
        and n = "parent_node ''root'' [text_node ''ab'']"]
      empty_containers [where env = "md_example_env 0 2 True False"
        and node = "parent_node ''paragraph'' []" and position = 1
        and ctx = "default_context 0 2" and nodeStart = 0 and info = info0
        and container = "parent_node ''root'' [text_node ''a'', parent_node ''paragraph'' [],
          text_node ''b'']"
        and n = "parent_node ''root'' [text_node ''ab'']"]
      empty_containers [where env = "md_example_env 0 2 False False"
        and node = "parent_node ''paragraph'' []" and position = 1
        and ctx = "default_context 0 2" and nodeStart = 0 and info = info0
        and container = "parent_node ''root'' [text_node ''a'', parent_node ''paragraph'' [],
          text_node ''b'']"
        and n = "parent_node ''root'' [text_node ''ab'']"]
    by simp
qed

text \<open>
  C3 as stated fails in \<open>slice\<close>: under the default configuration the empty paragraph of
  \<open>root[text("a"), paragraph[], text("b")]\<close>, met inside the range \<open>[0, 2)\<close>, is dropped and
  not returned with an empty child list; \<open>sliceMarkdown\<close> keeps it.
\<close>

theorem empty_paragraph_counterexample:
  "fst (sliceNode (default_context 0 2) (parent_node ''paragraph'' []) 1 info0) = RNull
   \<and> sr_node (slice (Some (parent_node ''root''
         [text_node ''a'', parent_node ''paragraph'' [], text_node ''b''])) 0 (Some 2) no_config)
       = Some (parent_node ''root'' [text_node ''ab''])
   \<and> sliceMarkdown (Some (parent_node ''root''
         [text_node ''a'', parent_node ''paragraph'' [], text_node ''b''])) (Fin 0)
         (Some (Fin 2)) no_options
       = Inr (ROne (parent_node ''root''
           [text_node ''a'', parent_node ''paragraph'' [], text_node ''b'']))"
proof -
  have a: "fst (sliceNode (default_context 0 2) (parent_node ''paragraph'' []) 1 info0) = RNull"
    by code_simp
  have b: "sr_node (slice (Some (parent_node ''root''
         [text_node ''a'', parent_node ''paragraph'' [], text_node ''b''])) 0 (Some 2) no_config)
       = Some (parent_node ''root'' [text_node ''ab''])"
    by code_simp
  have c: "sliceMarkdown (Some (parent_node ''root''
         [text_node ''a'', parent_node ''paragraph'' [], text_node ''b''])) (Fin 0)
         (Some (Fin 2)) no_options
       = Inr (ROne (parent_node ''root''
           [text_node ''a'', parent_node ''paragraph'' [], text_node ''b'']))"
    by code_simp
  from a b c show ?thesis
    by simp
qed

section \<open>Empty leaves\<close>



lemma value_of_with_value [simp]: "value_of (with_value n v) = v"
  by (simp add: value_of_def with_value_def)











section \<open>Truncation and trimming of leaves\<close>

lemma md_sliceText_partial:
  assumes "value_of node \<noteq> []" "ne = ns + int (length (value_of node))"
    "partial_overlap ns ne (md_start env) (effectiveEnd env)"
  shows "md_sliceText env node ns ne =
     emit node
       (if resolvedTrimWhitespace env then
          (if ns < md_start env \<and> ne > effectiveEnd env
             then cut_value node ns (md_start env) (effectiveEnd env)
           else if ns < md_start env
             then trimStart (cut_value node ns (md_start env) (effectiveEnd env))
           else trimEnd (cut_value node ns (md_start env) (effectiveEnd env)))
        else cut_value node ns (md_start env) (effectiveEnd env))"
  using assms
  by (auto simp: md_sliceText_def Let_def emit_def cut_value_def partial_overlap_def
      span_outside_def trimStart_def trimEnd_def)

lemma md_sliceCodeLike_partial:
  assumes "value_of node \<noteq> []" "ne = ns + int (length (value_of node))"
    "partial_overlap ns ne (md_start env) (effectiveEnd env)"
    "resolvedBehavior env key = Some ''trim''"
  shows "md_sliceCodeLike env key node ns ne =
     Some (with_value node (cut_value node ns (md_start env) (effectiveEnd env)))"
  using assms
  by (auto simp: md_sliceCodeLike_def Let_def cut_value_def partial_overlap_def
      span_outside_def)

lemma sliceNodeWithValue_partial:
  assumes "ne = ns + int (length (value_of node))"
    "partial_overlap ns ne (ctx_start context) (ctx_end context)"
    "truncates context node"
  shows "code_like node \<Longrightarrow> fst (sliceNodeWithValue context node ns info) =
       emit node (cut_value node ns (ctx_start context) (ctx_end context))"
    and "\<not> code_like node \<Longrightarrow> trims context \<Longrightarrow> ns < ctx_start context
       \<Longrightarrow> ne > ctx_end context \<Longrightarrow>
       fst (sliceNodeWithValue context node ns info) =
         emit node (trim (cut_value node ns (ctx_start context) (ctx_end context)))"
    and "\<not> code_like node \<Longrightarrow> trims context \<Longrightarrow> ns < ctx_start context
       \<Longrightarrow> ne = ctx_end context \<Longrightarrow>
       fst (sliceNodeWithValue context node ns info) =
         emit node (trimStart (cut_value node ns (ctx_start context) (ctx_end context)))"
    and "\<not> code_like node \<Longrightarrow> trims context \<Longrightarrow> ns = ctx_start context
       \<Longrightarrow> ne > ctx_end context \<Longrightarrow>
       fst (sliceNodeWithValue context node ns info) =
         emit node (trimEnd (cut_value node ns (ctx_start context) (ctx_end context)))"
  using assms
  by (auto simp: sliceNodeWithValue_def Let_def emit_def cut_value_def partial_overlap_def
      span_outside_def truncates_def leaf_behavior_def trims_def code_like_def)

text \<open>
  C2, as the code has it. For a leaf with a non-empty value at \<open>[ns, ne)\<close> that the range
  overlaps without covering it, and that is truncated, the value before any white-space
  handling is \<open>value.slice(max(0, start - ns), min(len, end - ns))\<close>; a code leaf is
  emitted with exactly this value. In \<open>sliceMarkdown\<close> with \<open>trimWhitespace\<close>, a text leaf
  loses its leading white space when only the start side was cut, its trailing white
  space when only the end side was cut, and nothing when both sides were cut. In \<open>slice\<close>
  with \<open>boundaries: 'trim'\<close>, a non-code leaf is trimmed at both ends when both sides were
  cut, and only at the cut side when its other end coincides with the range's boundary.
  A value that is empty in the end is not emitted.
\<close>

theorem truncation_and_trimming:
  "(value_of node \<noteq> [] \<and> ne = ns + int (length (value_of node))
      \<and> partial_overlap ns ne (md_start env) (effectiveEnd env) \<longrightarrow>
      md_sliceText env node ns ne =
        emit node
          (if resolvedTrimWhitespace env then
             (if ns < md_start env \<and> ne > effectiveEnd env
                then cut_value node ns (md_start env) (effectiveEnd env)
              else if ns < md_start env
                then trimStart (cut_value node ns (md_start env) (effectiveEnd env))
              else trimEnd (cut_value node ns (md_start env) (effectiveEnd env)))
           else cut_value node ns (md_start env) (effectiveEnd env))
      \<and> (resolvedBehavior env key = Some ''trim'' \<longrightarrow>
            md_sliceCodeLike env key node ns ne =
              Some (with_value node (cut_value node ns (md_start env) (effectiveEnd env)))))
   \<and> (ne = ns + int (length (value_of node))
      \<and> partial_overlap ns ne (ctx_start ctx) (ctx_end ctx)
      \<and> truncates ctx node \<longrightarrow>
      (code_like node \<longrightarrow>
         fst (sliceNodeWithValue ctx node ns info) =
           emit node (cut_value node ns (ctx_start ctx) (ctx_end ctx)))
      \<and> (\<not> code_like node \<and> trims ctx \<and> ns < ctx_start ctx \<and> ne > ctx_end ctx
          \<longrightarrow> fst (sliceNodeWithValue ctx node ns info) =
            emit node (trim (cut_value node ns (ctx_start ctx) (ctx_end ctx))))
      \<and> (\<not> code_like node \<and> trims ctx \<and> ns < ctx_start ctx \<and> ne = ctx_end ctx
          \<longrightarrow> fst (sliceNodeWithValue ctx node ns info) =
            emit node (trimStart (cut_value node ns (ctx_start ctx) (ctx_end ctx))))
      \<and> (\<not> code_like node \<and> trims ctx \<and> ns = ctx_start ctx \<and> ne > ctx_end ctx
          \<longrightarrow> fst (sliceNodeWithValue ctx node ns info) =
            emit node (trimEnd (cut_value node ns (ctx_start ctx) (ctx_end ctx)))))"
  using md_sliceText_partial [of node ne ns env]
    md_sliceCodeLike_partial [of node ne ns env key]
    sliceNodeWithValue_partial [of ne ns node ctx info]
  by blast

theorem truncation_and_trimming_witness:
  "value_of (text_node ''ab  cd'') \<noteq> []
   \<and> (6 :: int) = 0 + int (length (value_of (text_node ''ab  cd'')))
   \<and> partial_overlap 0 6 (md_start (md_example_env 2 6 True True))
        (effectiveEnd (md_example_env 2 6 True True))
   \<and> md_sliceText (md_example_env 2 6 True True) (text_node ''ab  cd'') 0 6
        = Some (text_node ''cd'')
   \<and> partial_overlap 0 6 (md_start (md_example_env 0 4 True True))
        (effectiveEnd (md_example_env 0 4 True True))
   \<and> md_sliceText (md_example_env 0 4 True True) (text_node ''ab  cd'') 0 6
        = Some (text_node ''ab'')
   \<and> partial_overlap 0 6 (ctx_start (default_context 2 6)) (ctx_end (default_context 2 6))
   \<and> truncates (default_context 2 6) (text_node ''ab  cd'')
   \<and> \<not> code_like (text_node ''ab  cd'') \<and> trims (default_context 2 6)
   \<and> fst (sliceNodeWithValue (default_context 2 6) (text_node ''ab  cd'') 0 info0)
        = Some (text_node ''cd'')
   \<and> partial_overlap 0 6 (ctx_start (default_context 1 4)) (ctx_end (default_context 1 4))
   \<and> fst (sliceNodeWithValue (default_context 1 4) (text_node ''ab  cd'') 0 info0)
        = Some (text_node ''b'')"
proof -
  have h: "value_of (text_node ''ab  cd'') \<noteq> []"
    "(6 :: int) = 0 + int (length (value_of (text_node ''ab  cd'')))"
    "partial_overlap 0 6 (md_start (md_example_env 2 6 True True))
        (effectiveEnd (md_example_env 2 6 True True))"
    "partial_overlap 0 6 (md_start (md_example_env 0 4 True True))
        (effectiveEnd (md_example_env 0 4 True True))"
    "partial_overlap 0 6 (ctx_start (default_context 2 6)) (ctx_end (default_context 2 6))"
    "partial_overlap 0 6 (ctx_start (default_context 1 4)) (ctx_end (default_context 1 4))"
    "truncates (default_context 2 6) (text_node ''ab  cd'')"
    "truncates (default_context 1 4) (text_node ''ab  cd'')"
    "\<not> code_like (text_node ''ab  cd'')"
    "trims (default_context 2 6)" "trims (default_context 1 4)"
    by code_simp+
  have v: "resolvedTrimWhitespace (md_example_env 2 6 True True)"
    "resolvedTrimWhitespace (md_example_env 0 4 True True)"
    "md_start (md_example_env 2 6 True True) = 2" "effectiveEnd (md_example_env 2 6 True True) = 6"
    "md_start (md_example_env 0 4 True True) = 0" "effectiveEnd (md_example_env 0 4 True True) = 4"
    "ctx_start (default_context 2 6) = 2" "ctx_end (default_context 2 6) = 6"
    "ctx_start (default_context 1 4) = 1" "ctx_end (default_context 1 4) = 4"
    by (simp_all add: md_example_env_def default_context_def)
  have e: "emit (text_node ''ab  cd'') (trimStart (cut_value (text_node ''ab  cd'') 0 2 6))
      = Some (text_node ''cd'')"
    "emit (text_node ''ab  cd'') (trimEnd (cut_value (text_node ''ab  cd'') 0 0 4))
      = Some (text_node ''ab'')"
    "emit (text_node ''ab  cd'') (trim (cut_value (text_node ''ab  cd'') 0 1 4))
      = Some (text_node ''b'')"
    by code_simp+
  show ?thesis
    using h
      truncation_and_trimming [where node = "text_node ''ab  cd''" and ns = 0 and ne = 6
        and env = "md_example_env 2 6 True True" and ctx = "default_context 2 6"
        and info = info0 and key = "''code''"]
      truncation_and_trimming [where node = "text_node ''ab  cd''" and ns = 0 and ne = 6
        and env = "md_example_env 0 4 True True" and ctx = "default_context 1 4"
        and info = info0 and key = "''code''"]
    by (simp add: v e)
qed

text \<open>
  C2 as stated fails in \<open>sliceMarkdown\<close>: \<open>text("ab cd ef")\<close> over \<open>[2, 6)\<close> with
  \<open>trimWhitespace\<close> is cut at both sides and comes back as \<open>" cd "\<close>, with its white space.
\<close>

theorem both_sides_cut_counterexample:
  "md_sliceText (md_example_env 2 6 True True) (text_node ''ab cd ef'') 0 8
     = Some (text_node '' cd '')
   \<and> sliceMarkdown (Some (text_node ''ab cd ef'')) (Fin 2) (Some (Fin 6)) trim_options
     = Inr (ROne (text_node '' cd ''))"
proof -
  have a: "md_sliceText (md_example_env 2 6 True True) (text_node ''ab cd ef'') 0 8
     = Some (text_node '' cd '')"
    by code_simp
  have b: "sliceMarkdown (Some (text_node ''ab cd ef'')) (Fin 2) (Some (Fin 6)) trim_options
     = Inr (ROne (text_node '' cd ''))"
    by code_simp
  from a b show ?thesis
    by simp
qed

section \<open>Text search\<close>















text \<open>
  \<open>findTextPositions\<close> advances by the needle's length after a hit, the other of the two
  disciplines that the specification allows, and finds the occurrences that do not overlap.
\<close>

lemma findTextPositions_non_overlapping:
  "findTextPositions (text_node ''aaaa'') ''aa'' = Some [0, 2]"
  by code_simp

end
